theory Spec2Isabelle
  imports Complex_Main "HOL-Library.Word"
begin

section \<open>Python values, exceptions and arithmetic\<close>

text \<open>
  The driver \<^verbatim>\<open>src/mpu6050/mpu6050.py\<close> is embedded function by function.
  Python integers are \<open>int\<close>; Python floats are modelled as exact reals (rounding is
  not represented); a value that may be \<^verbatim>\<open>None\<close> is an \<open>option\<close>. A raised
  exception is the \<open>Inl\<close> branch of a sum. Logging calls have no effect on results and
  are left out. Range arguments are strings, and the dictionary of a vector reading
  always has its three keys.
\<close>

datatype py_error = OSError | ValueError | TypeError | ZeroDivisionError | AttributeError

definition bind_err :: "py_error + 'a \<Rightarrow> ('a \<Rightarrow> py_error + 'b) \<Rightarrow> py_error + 'b" where
  "bind_err m f = (case m of Inl e \<Rightarrow> Inl e | Inr v \<Rightarrow> f v)"

text \<open>
  \<^verbatim>\<open>try: v = m  except (E1, ...): v = dflt\<close>: the listed exceptions are replaced by
  the default, every other exception propagates.
\<close>

definition try_except :: "py_error + 'a \<Rightarrow> py_error list \<Rightarrow> 'a \<Rightarrow> py_error + 'a" where
  "try_except m handled dflt =
     (case m of
        Inl e \<Rightarrow> if e \<in> set handled then Inr dflt else Inl e
      | Inr v \<Rightarrow> Inr v)"

text \<open>\<^verbatim>\<open>a / b\<close> on numbers or \<^verbatim>\<open>None\<close>: \<^verbatim>\<open>None\<close> operands raise TypeError,
  a zero divisor raises ZeroDivisionError.\<close>

definition py_truediv :: "real option \<Rightarrow> real option \<Rightarrow> py_error + real" where
  "py_truediv a b =
     (case a of
        None \<Rightarrow> Inl TypeError
      | Some u \<Rightarrow>
          (case b of
             None \<Rightarrow> Inl TypeError
           | Some d \<Rightarrow> if d = 0 then Inl ZeroDivisionError else Inr (u / d)))"

text \<open>\<^verbatim>\<open>a ** 2\<close>: TypeError on \<^verbatim>\<open>None\<close>.\<close>

definition py_pow2 :: "real option \<Rightarrow> py_error + real" where
  "py_pow2 a = (case a of None \<Rightarrow> Inl TypeError | Some u \<Rightarrow> Inr (u ^ 2))"

text \<open>\<^verbatim>\<open>math.sqrt\<close> and \<^verbatim>\<open>math.acos\<close> raise ValueError outside their domain.\<close>

definition py_sqrt :: "real \<Rightarrow> py_error + real" where
  "py_sqrt a = (if a < 0 then Inl ValueError else Inr (sqrt a))"

definition py_acos :: "real \<Rightarrow> py_error + real" where
  "py_acos a = (if a < - 1 \<or> 1 < a then Inl ValueError else Inr (arccos a))"

text \<open>A list comprehension whose element expression may raise: elements are evaluated
  left to right and the first exception aborts the whole comprehension.\<close>

fun list_comp :: "('a \<Rightarrow> py_error + 'b) \<Rightarrow> 'a list \<Rightarrow> py_error + 'b list" where
  "list_comp f [] = Inr []"
| "list_comp f (i # rest) =
     bind_err (f i) (\<lambda>v. bind_err (list_comp f rest) (\<lambda>vs. Inr (v # vs)))"

section \<open>Class constants\<close>

definition GRAVITIY_MS2 :: real where "GRAVITIY_MS2 = 9.80665"

definition ACCEL_SCALE_MAP :: "string \<rightharpoonup> real" where
  "ACCEL_SCALE_MAP =
     map_of [(''2g'', 16384.0), (''4g'', 8192.0), (''8g'', 4096.0), (''16g'', 2048.0)]"

definition GYRO_SCALE_MAP :: "string \<rightharpoonup> real" where
  "GYRO_SCALE_MAP =
     map_of [(''250deg'', 131.0), (''500deg'', 65.5), (''1000deg'', 32.8),
             (''2000deg'', 16.4)]"

definition ACCEL_RANGE_MAP :: "string \<rightharpoonup> int" where
  "ACCEL_RANGE_MAP = map_of [(''2g'', 0x00), (''4g'', 0x08), (''8g'', 0x10), (''16g'', 0x18)]"

definition GYRO_RANGE_MAP :: "string \<rightharpoonup> int" where
  "GYRO_RANGE_MAP =
     map_of [(''250deg'', 0x00), (''500deg'', 0x08), (''1000deg'', 0x10),
             (''2000deg'', 0x18)]"

definition PWR_MGMT_1 :: int where "PWR_MGMT_1 = 0x6B"

definition ACCEL_XOUTH :: int where "ACCEL_XOUTH = 0x3B"
definition ACCEL_YOUTH :: int where "ACCEL_YOUTH = 0x3D"
definition ACCEL_ZOUTH :: int where "ACCEL_ZOUTH = 0x3F"

definition TEMP_OUTH :: int where "TEMP_OUTH = 0x41"
definition TEMP_OUTL :: int where "TEMP_OUTL = 0x41"

definition GYRO_XOUTH :: int where "GYRO_XOUTH = 0x43"
definition GYRO_YOUTH :: int where "GYRO_YOUTH = 0x45"
definition GYRO_ZOUTH :: int where "GYRO_ZOUTH = 0x47"

definition ACCEL_CONFIG :: int where "ACCEL_CONFIG = 0x1C"
definition GYRO_CONFIG :: int where "GYRO_CONFIG = 0x1B"

section \<open>The bus and the driver object\<close>

text \<open>
  One bus transaction: \<open>Read a r\<close> is \<^verbatim>\<open>read_byte_data(a, r)\<close>, \<open>Write a r v\<close> is
  \<^verbatim>\<open>write_byte_data(a, r, v)\<close>.
\<close>

datatype txn = Read int int | Write int int int

text \<open>
  The transport (\<^verbatim>\<open>smbus2.SMBus\<close>) is an external collaborator and is a parameter of
  every operation. Its answer may depend on all transactions issued before.
  \<open>bus_read h a r = None\<close> and \<open>bus_write h a r v = False\<close> mean that the call raises
  \<^verbatim>\<open>OSError\<close>; \<open>bus_read h a r = Some v\<close> means that it returns the byte \<open>v\<close>.
\<close>

record smbus =
  bus_read :: "txn list \<Rightarrow> int \<Rightarrow> int \<Rightarrow> int option"
  bus_write :: "txn list \<Rightarrow> int \<Rightarrow> int \<Rightarrow> int \<Rightarrow> bool"

text \<open>
  The driver object. An attribute that has not been assigned yet is \<open>None\<close>; reading it
  raises AttributeError. \<open>trace\<close> lists the transactions issued on \<^verbatim>\<open>self.bus\<close> so far,
  oldest first, whether they succeeded or not.
\<close>

record mpu6050 =
  address :: int
  accel_range :: "string option"
  gyro_range :: "string option"
  trace :: "txn list"

text \<open>The dictionary \<^verbatim>\<open>{'x': .., 'y': .., 'z': ..}\<close> returned by the vector reads.\<close>

record reading =
  key_x :: "real option"
  key_y :: "real option"
  key_z :: "real option"

definition read_byte_data :: "smbus \<Rightarrow> mpu6050 \<Rightarrow> int \<Rightarrow> (py_error + int) \<times> mpu6050" where
  "read_byte_data b s register =
     ((case bus_read b (trace s) (address s) register of
         None \<Rightarrow> Inl OSError
       | Some v \<Rightarrow> Inr v),
      s\<lparr>trace := trace s @ [Read (address s) register]\<rparr>)"

definition write_byte_data ::
  "smbus \<Rightarrow> mpu6050 \<Rightarrow> int \<Rightarrow> int \<Rightarrow> (py_error + unit) \<times> mpu6050" where
  "write_byte_data b s register v =
     ((if bus_write b (trace s) (address s) register v then Inr () else Inl OSError),
      s\<lparr>trace := trace s @ [Write (address s) register v]\<rparr>)"

section \<open>Raw register read\<close>

text \<open>Lines 122 to 127 of \<^verbatim>\<open>read_i2c_word\<close>: combining the two bytes.\<close>

definition combine_word :: "int \<Rightarrow> int \<Rightarrow> int" where
  "combine_word high low =
     (let v = push_bit 8 high + low
      in if v \<ge> 0x8000 then - ((65535 - v) + 1) else v)"

text \<open>
  \<^verbatim>\<open>read_i2c_word\<close>. Each byte read sits in its own \<^verbatim>\<open>try\<close> whose handler returns
  \<^verbatim>\<open>None\<close> on OSError; any other exception would propagate.
\<close>

definition read_i2c_word ::
  "smbus \<Rightarrow> mpu6050 \<Rightarrow> int \<Rightarrow> (py_error + int option) \<times> mpu6050" where
  "read_i2c_word b s register =
     (case read_byte_data b s register of
        (Inl e, s1) \<Rightarrow> (if e = OSError then Inr None else Inl e, s1)
      | (Inr high, s1) \<Rightarrow>
          (case read_byte_data b s1 (register + 1) of
             (Inl e, s2) \<Rightarrow> (if e = OSError then Inr None else Inl e, s2)
           | (Inr low, s2) \<Rightarrow> (Inr (Some (combine_word high low)), s2)))"

section \<open>Temperature\<close>

text \<open>\<^verbatim>\<open>get_temp\<close>: the raw word at \<open>TEMP_OUTH\<close>, then \<^verbatim>\<open>(raw_temp / 340.0) + 36.53\<close>
  with no handler around the arithmetic.\<close>

definition get_temp :: "smbus \<Rightarrow> mpu6050 \<Rightarrow> (py_error + real) \<times> mpu6050" where
  "get_temp b s =
     (case read_i2c_word b s TEMP_OUTH of
        (Inl e, s1) \<Rightarrow> (Inl e, s1)
      | (Inr raw_temp, s1) \<Rightarrow>
          (bind_err (py_truediv (map_option of_int raw_temp) (Some 340.0))
             (\<lambda>q. Inr (q + 36.53)), s1))"

section \<open>Range setters\<close>

definition set_accel_range ::
  "smbus \<Rightarrow> mpu6050 \<Rightarrow> string \<Rightarrow> (py_error + unit) \<times> mpu6050" where
  "set_accel_range b s rng =
     (case ACCEL_RANGE_MAP rng of
        None \<Rightarrow> (Inl ValueError, s)
      | Some code \<Rightarrow>
          (case write_byte_data b s ACCEL_CONFIG 0x00 of
             (Inl e, s1) \<Rightarrow> (Inl e, s1)
           | (Inr _, s1) \<Rightarrow>
               (case write_byte_data b s1 ACCEL_CONFIG code of
                  (Inl e, s2) \<Rightarrow> (Inl e, s2)
                | (Inr _, s2) \<Rightarrow> (Inr (), s2\<lparr>accel_range := Some rng\<rparr>))))"

definition set_gyro_range ::
  "smbus \<Rightarrow> mpu6050 \<Rightarrow> string \<Rightarrow> (py_error + unit) \<times> mpu6050" where
  "set_gyro_range b s rng =
     (case GYRO_RANGE_MAP rng of
        None \<Rightarrow> (Inl ValueError, s)
      | Some code \<Rightarrow>
          (case write_byte_data b s GYRO_CONFIG 0x00 of
             (Inl e, s1) \<Rightarrow> (Inl e, s1)
           | (Inr _, s1) \<Rightarrow>
               (case write_byte_data b s1 GYRO_CONFIG code of
                  (Inl e, s2) \<Rightarrow> (Inl e, s2)
                | (Inr _, s2) \<Rightarrow> (Inr (), s2\<lparr>gyro_range := Some rng\<rparr>))))"

section \<open>Vector reads\<close>

text \<open>\<^verbatim>\<open>[self.read_i2c_word(reg) for reg in regs]\<close>, threading the object through.\<close>

fun read_words ::
  "smbus \<Rightarrow> mpu6050 \<Rightarrow> int list \<Rightarrow> (py_error + int option list) \<times> mpu6050" where
  "read_words b s [] = (Inr [], s)"
| "read_words b s (reg # regs) =
     (case read_i2c_word b s reg of
        (Inl e, s1) \<Rightarrow> (Inl e, s1)
      | (Inr w, s1) \<Rightarrow>
          (case read_words b s1 regs of
             (Inl e, s2) \<Rightarrow> (Inl e, s2)
           | (Inr ws, s2) \<Rightarrow> (Inr (w # ws), s2)))"

text \<open>\<^verbatim>\<open>self.accel_range\<close> and \<^verbatim>\<open>self.gyro_range\<close> as attribute reads.\<close>

definition getattr :: "'a option \<Rightarrow> py_error + 'a" where
  "getattr a = (case a of None \<Rightarrow> Inl AttributeError | Some v \<Rightarrow> Inr v)"

text \<open>The element expression \<^verbatim>\<open>i/ACCEL_SCALE_MAP.get(self.accel_range)*GRAVITIY_MS2\<close>.\<close>

definition accel_elem :: "mpu6050 \<Rightarrow> int option \<Rightarrow> py_error + real" where
  "accel_elem s i =
     bind_err (getattr (accel_range s)) (\<lambda>r.
     bind_err (py_truediv (map_option of_int i) (ACCEL_SCALE_MAP r)) (\<lambda>q.
     Inr (q * GRAVITIY_MS2)))"

text \<open>The element expression \<^verbatim>\<open>i/GYRO_SCALE_MAP.get(self.gyro_range)\<close>.\<close>

definition gyro_elem :: "mpu6050 \<Rightarrow> int option \<Rightarrow> py_error + real" where
  "gyro_elem s i =
     bind_err (getattr (gyro_range s)) (\<lambda>r.
     py_truediv (map_option of_int i) (GYRO_SCALE_MAP r))"

text \<open>The conversion \<^verbatim>\<open>try\<close> block shared in shape by both vector reads, and the
  dictionary built from the resulting list.\<close>

definition convert_xyz ::
  "(int option \<Rightarrow> py_error + real) \<Rightarrow> int option list \<Rightarrow> py_error + real option list" where
  "convert_xyz elem raw =
     try_except (bind_err (list_comp elem raw) (\<lambda>vs. Inr (map Some vs)))
       [TypeError] [None, None, None]"

definition xyz_dict :: "real option list \<Rightarrow> reading" where
  "xyz_dict xyz = \<lparr>key_x = xyz ! 0, key_y = xyz ! 1, key_z = xyz ! 2\<rparr>"

definition get_accel_data :: "smbus \<Rightarrow> mpu6050 \<Rightarrow> (py_error + reading) \<times> mpu6050" where
  "get_accel_data b s =
     (case read_words b s [ACCEL_XOUTH, ACCEL_YOUTH, ACCEL_ZOUTH] of
        (Inl e, s1) \<Rightarrow> (Inl e, s1)
      | (Inr raw, s1) \<Rightarrow>
          (bind_err (convert_xyz (accel_elem s1) raw) (\<lambda>xyz. Inr (xyz_dict xyz)), s1))"

definition get_gyro_data :: "smbus \<Rightarrow> mpu6050 \<Rightarrow> (py_error + reading) \<times> mpu6050" where
  "get_gyro_data b s =
     (case read_words b s [GYRO_XOUTH, GYRO_YOUTH, GYRO_ZOUTH] of
        (Inl e, s1) \<Rightarrow> (Inl e, s1)
      | (Inr raw, s1) \<Rightarrow>
          (bind_err (convert_xyz (gyro_elem s1) raw) (\<lambda>xyz. Inr (xyz_dict xyz)), s1))"

section \<open>Tilt angle\<close>

text \<open>The expression inside the \<^verbatim>\<open>try\<close> of \<^verbatim>\<open>calculate_angle\<close>:
  \<^verbatim>\<open>acos(xyz['y']/sqrt(xyz['x']**2 + xyz['y']**2 + xyz['z']**2))*180/pi\<close>.\<close>

definition angle_expr :: "reading \<Rightarrow> py_error + real" where
  "angle_expr xyz =
     bind_err (py_pow2 (key_x xyz)) (\<lambda>xx.
     bind_err (py_pow2 (key_y xyz)) (\<lambda>yy.
     bind_err (py_pow2 (key_z xyz)) (\<lambda>zz.
     bind_err (py_sqrt (xx + yy + zz)) (\<lambda>m.
     bind_err (py_truediv (key_y xyz) (Some m)) (\<lambda>q.
     bind_err (py_acos q) (\<lambda>a.
     Inr (a * 180 / pi)))))))"

definition calculate_angle :: "reading \<Rightarrow> py_error + real option" where
  "calculate_angle xyz =
     try_except (bind_err (angle_expr xyz) (\<lambda>a. Inr (Some a))) [ValueError, TypeError] None"

section \<open>Construction and call sequences\<close>

text \<open>
  \<^verbatim>\<open>__init__\<close>: the attributes start unassigned; the wake-up write and the two default
  range settings follow, and the first exception ends construction. Opening the
  transport is taken to succeed.
\<close>

definition init :: "smbus \<Rightarrow> int \<Rightarrow> (py_error + unit) \<times> mpu6050" where
  "init b addr =
     (let s0 = \<lparr>address = addr, accel_range = None, gyro_range = None, trace = []\<rparr>
      in case write_byte_data b s0 PWR_MGMT_1 0x00 of
           (Inl e, s1) \<Rightarrow> (Inl e, s1)
         | (Inr _, s1) \<Rightarrow>
             (case set_accel_range b s1 ''4g'' of
                (Inl e, s2) \<Rightarrow> (Inl e, s2)
              | (Inr _, s2) \<Rightarrow> set_gyro_range b s2 ''500deg''))"

text \<open>The methods a caller can invoke on a constructed object that read or change it,
  and the object left behind by a call, whether it returned or raised.
  \<^verbatim>\<open>calculate_angle\<close> neither reads nor changes the object and is not listed.\<close>

datatype call =
  Call_read_i2c_word int
| Call_get_temp
| Call_set_accel_range string
| Call_get_accel_data
| Call_set_gyro_range string
| Call_get_gyro_data

fun exec :: "smbus \<Rightarrow> mpu6050 \<Rightarrow> call \<Rightarrow> mpu6050" where
  "exec b s (Call_read_i2c_word r) = snd (read_i2c_word b s r)"
| "exec b s Call_get_temp = snd (get_temp b s)"
| "exec b s (Call_set_accel_range r) = snd (set_accel_range b s r)"
| "exec b s Call_get_accel_data = snd (get_accel_data b s)"
| "exec b s (Call_set_gyro_range r) = snd (set_gyro_range b s r)"
| "exec b s Call_get_gyro_data = snd (get_gyro_data b s)"

definition run :: "smbus \<Rightarrow> mpu6050 \<Rightarrow> call list \<Rightarrow> mpu6050" where
  "run b s calls = foldl (exec b) s calls"

text \<open>Both stored ranges are assigned and are keys of the range maps.\<close>

definition ranges_valid :: "mpu6050 \<Rightarrow> bool" where
  "ranges_valid s \<longleftrightarrow>
     accel_range s \<in> Some ` {''2g'', ''4g'', ''8g'', ''16g''} \<and>
     gyro_range s \<in> Some ` {''250deg'', ''500deg'', ''1000deg'', ''2000deg''}"

section \<open>Properties of the raw register read\<close>

lemma read_i2c_word_fail_high:
  "bus_read b (trace s) (address s) r = None \<Longrightarrow>
   read_i2c_word b s r = (Inr None, s\<lparr>trace := trace s @ [Read (address s) r]\<rparr>)"
  by (simp add: read_i2c_word_def read_byte_data_def)

lemma read_i2c_word_fail_low:
  "bus_read b (trace s) (address s) r = Some h \<Longrightarrow>
   bus_read b (trace s @ [Read (address s) r]) (address s) (r + 1) = None \<Longrightarrow>
   read_i2c_word b s r =
     (Inr None, s\<lparr>trace := trace s @ [Read (address s) r, Read (address s) (r + 1)]\<rparr>)"
  by (simp add: read_i2c_word_def read_byte_data_def)

lemma read_i2c_word_ok:
  "bus_read b (trace s) (address s) r = Some h \<Longrightarrow>
   bus_read b (trace s @ [Read (address s) r]) (address s) (r + 1) = Some l \<Longrightarrow>
   read_i2c_word b s r =
     (Inr (Some (combine_word h l)),
      s\<lparr>trace := trace s @ [Read (address s) r, Read (address s) (r + 1)]\<rparr>)"
  by (simp add: read_i2c_word_def read_byte_data_def)

lemma combine_word_eq:
  "combine_word h l = (if h * 256 + l < 0x8000 then h * 256 + l else h * 256 + l - 65536)"
  by (simp add: combine_word_def Let_def push_bit_eq_mult)

lemma combine_word_sint:
  assumes "0 \<le> h" "h \<le> 255" "0 \<le> l" "l \<le> 255"
  shows "combine_word h l = sint (word_of_int (h * 256 + l) :: 16 word)"
proof -
  define v where "v = h * 256 + l"
  have r: "0 \<le> v" "v < 65536" using assms by (auto simp: v_def)
  have st: "sint (word_of_int v :: 16 word) = signed_take_bit 15 v"
    by (subst sint_sbintrunc') simp
  have cw: "combine_word h l = (if v < 0x8000 then v else v - 65536)"
    by (simp add: combine_word_eq v_def)
  have "signed_take_bit 15 v = (if v < 0x8000 then v else v - 65536)"
  proof (cases "v < 0x8000")
    case True
    then show ?thesis
      using r by (simp add: signed_take_bit_int_eq_self)
  next
    case False
    have "signed_take_bit 15 v = signed_take_bit 15 (v - 65536)"
      by (simp add: signed_take_bit_eq_iff_take_bit_eq take_bit_eq_mod)
    also have "\<dots> = v - 65536"
      using r False by (simp add: signed_take_bit_int_eq_self)
    finally show ?thesis using False by simp
  qed
  then show ?thesis
    using st cw unfolding v_def by simp
qed


text \<open>
  Claim C2. When both byte reads succeed with bytes \<open>h\<close> and \<open>l\<close> in the range 0 to 255,
  \<^verbatim>\<open>read_i2c_word\<close> returns the two's-complement signed 16-bit value of
  \<open>h * 256 + l\<close>: the value itself below 0x8000 and the value minus 65536 from 0x8000
  on. Bytes (0x7F, 0xFF) give 32767, (0x80, 0x00) give -32768, (0xFF, 0xFF) give -1 and
  (0x00, 0x00) give 0.
\<close>

theorem read_i2c_word_twos_complement:
  assumes "bus_read b (trace s) (address s) r = Some h"
      and "bus_read b (trace s @ [Read (address s) r]) (address s) (r + 1) = Some l"
      and "0 \<le> h" "h \<le> 255" "0 \<le> l" "l \<le> 255"
  shows "\<exists>w. fst (read_i2c_word b s r) = Inr (Some w) \<and>
           w = sint (word_of_int (h * 256 + l) :: 16 word) \<and>
           w = (if h * 256 + l < 0x8000 then h * 256 + l else h * 256 + l - 65536) \<and>
           (h = 0x7F \<and> l = 0xFF \<longrightarrow> w = 32767) \<and>
           (h = 0x80 \<and> l = 0x00 \<longrightarrow> w = - 32768) \<and>
           (h = 0xFF \<and> l = 0xFF \<longrightarrow> w = - 1) \<and>
           (h = 0x00 \<and> l = 0x00 \<longrightarrow> w = 0)"
proof -
  have "fst (read_i2c_word b s r) = Inr (Some (combine_word h l))"
    using assms(1,2) by (simp add: read_i2c_word_ok)
  moreover have "combine_word h l = sint (word_of_int (h * 256 + l) :: 16 word)"
    using assms(3-6) by (rule combine_word_sint)
  ultimately show ?thesis
    by (auto simp: combine_word_eq)
qed

theorem read_i2c_word_twos_complement_witness:
  "fst (read_i2c_word
         \<lparr>bus_read = (\<lambda>h a r. if r = 0x3B then Some 0x80 else Some 0x00),
          bus_write = (\<lambda>h a r v. True)\<rparr>
         \<lparr>address = 0x68, accel_range = Some ''4g'', gyro_range = Some ''500deg'', trace = []\<rparr>
         0x3B) = Inr (Some (- 32768))"
  using read_i2c_word_twos_complement
    [of "\<lparr>bus_read = (\<lambda>h a r. if r = 0x3B then Some 0x80 else Some 0x00),
          bus_write = (\<lambda>h a r v. True)\<rparr>"
        "\<lparr>address = 0x68, accel_range = Some ''4g'', gyro_range = Some ''500deg'', trace = []\<rparr>"
        "0x3B" "0x80" "0x00"]
  by simp


text \<open>
  Claim C10. If the high-byte read of \<^verbatim>\<open>read_i2c_word\<close> fails, the call returns
  \<^verbatim>\<open>None\<close> after exactly one bus transaction, the read at \<open>r\<close>; the read at \<open>r + 1\<close>
  is issued, as the second transaction, only when the first read succeeded.
\<close>

theorem read_i2c_word_high_failure_single_transaction:
  "(bus_read b (trace s) (address s) r = None \<longrightarrow>
      read_i2c_word b s r = (Inr None, s\<lparr>trace := trace s @ [Read (address s) r]\<rparr>)) \<and>
   (bus_read b (trace s) (address s) r \<noteq> None \<longrightarrow>
      trace (snd (read_i2c_word b s r)) =
        trace s @ [Read (address s) r, Read (address s) (r + 1)])"
  by (auto simp: read_i2c_word_def read_byte_data_def split: option.splits)

theorem read_i2c_word_high_failure_single_transaction_witness:
  "read_i2c_word
     \<lparr>bus_read = (\<lambda>h a r. None), bus_write = (\<lambda>h a r v. True)\<rparr>
     \<lparr>address = 0x68, accel_range = Some ''4g'', gyro_range = Some ''500deg'', trace = []\<rparr>
     0x3B
   = (Inr None,
      \<lparr>address = 0x68, accel_range = Some ''4g'', gyro_range = Some ''500deg'',
       trace = [Read 0x68 0x3B]\<rparr>) \<and>
   trace (snd (read_i2c_word
     \<lparr>bus_read = (\<lambda>h a r. if h = [] then Some 1 else None), bus_write = (\<lambda>h a r v. True)\<rparr>
     \<lparr>address = 0x68, accel_range = Some ''4g'', gyro_range = Some ''500deg'', trace = []\<rparr>
     0x3B)) = [Read 0x68 0x3B, Read 0x68 0x3C]"
  using read_i2c_word_high_failure_single_transaction
    [of "\<lparr>bus_read = (\<lambda>h a r. None), bus_write = (\<lambda>h a r v. True)\<rparr>"
        "\<lparr>address = 0x68, accel_range = Some ''4g'', gyro_range = Some ''500deg'', trace = []\<rparr>"
        "0x3B"]
    read_i2c_word_high_failure_single_transaction
    [of "\<lparr>bus_read = (\<lambda>h a r. if h = [] then Some 1 else None), bus_write = (\<lambda>h a r v. True)\<rparr>"
        "\<lparr>address = 0x68, accel_range = Some ''4g'', gyro_range = Some ''500deg'', trace = []\<rparr>"
        "0x3B"]
  by simp

section \<open>Properties of the range setters\<close>

lemma ACCEL_RANGE_MAP_dom: "dom ACCEL_RANGE_MAP = {''2g'', ''4g'', ''8g'', ''16g''}"
  by (auto simp: ACCEL_RANGE_MAP_def split: if_splits)

lemma GYRO_RANGE_MAP_dom:
  "dom GYRO_RANGE_MAP = {''250deg'', ''500deg'', ''1000deg'', ''2000deg''}"
  by (auto simp: GYRO_RANGE_MAP_def split: if_splits)

lemma ACCEL_SCALE_MAP_values:
  "r \<in> {''2g'', ''4g'', ''8g'', ''16g''} \<Longrightarrow>
   ACCEL_SCALE_MAP r =
     Some (if r = ''2g'' then 16384 else if r = ''4g'' then 8192
           else if r = ''8g'' then 4096 else 2048)"
  by (auto simp: ACCEL_SCALE_MAP_def)

lemma GYRO_SCALE_MAP_values:
  "r \<in> {''250deg'', ''500deg'', ''1000deg'', ''2000deg''} \<Longrightarrow>
   GYRO_SCALE_MAP r =
     Some (if r = ''250deg'' then 131 else if r = ''500deg'' then 65.5
           else if r = ''1000deg'' then 32.8 else 16.4)"
  by (auto simp: GYRO_SCALE_MAP_def)

lemma ACCEL_SCALE_MAP_nonzero:
  assumes "r \<in> {''2g'', ''4g'', ''8g'', ''16g''}"
  shows "\<exists>d. ACCEL_SCALE_MAP r = Some d \<and> d \<noteq> 0"
proof -
  have "(if r = ''2g'' then 16384 else if r = ''4g'' then 8192
         else if r = ''8g'' then 4096 else (2048::real)) \<noteq> 0"
    by simp
  with ACCEL_SCALE_MAP_values [OF assms] show ?thesis by blast
qed

lemma GYRO_SCALE_MAP_nonzero:
  assumes "r \<in> {''250deg'', ''500deg'', ''1000deg'', ''2000deg''}"
  shows "\<exists>d. GYRO_SCALE_MAP r = Some d \<and> d \<noteq> 0"
proof -
  have "(if r = ''250deg'' then 131 else if r = ''500deg'' then 65.5
         else if r = ''1000deg'' then 32.8 else (16.4::real)) \<noteq> 0"
    by simp
  with GYRO_SCALE_MAP_values [OF assms] show ?thesis by blast
qed

lemma set_accel_range_valid:
  assumes "ACCEL_RANGE_MAP rng = Some code"
  shows "set_accel_range b s rng =
     (if \<not> bus_write b (trace s) (address s) ACCEL_CONFIG 0x00
      then (Inl OSError, s\<lparr>trace := trace s @ [Write (address s) ACCEL_CONFIG 0x00]\<rparr>)
      else if \<not> bus_write b (trace s @ [Write (address s) ACCEL_CONFIG 0x00])
                   (address s) ACCEL_CONFIG code
      then (Inl OSError,
            s\<lparr>trace := trace s @ [Write (address s) ACCEL_CONFIG 0x00,
                                    Write (address s) ACCEL_CONFIG code]\<rparr>)
      else (Inr (),
            s\<lparr>trace := trace s @ [Write (address s) ACCEL_CONFIG 0x00,
                                    Write (address s) ACCEL_CONFIG code],
              accel_range := Some rng\<rparr>))"
  using assms by (simp add: set_accel_range_def write_byte_data_def)

lemma set_gyro_range_valid:
  assumes "GYRO_RANGE_MAP rng = Some code"
  shows "set_gyro_range b s rng =
     (if \<not> bus_write b (trace s) (address s) GYRO_CONFIG 0x00
      then (Inl OSError, s\<lparr>trace := trace s @ [Write (address s) GYRO_CONFIG 0x00]\<rparr>)
      else if \<not> bus_write b (trace s @ [Write (address s) GYRO_CONFIG 0x00])
                   (address s) GYRO_CONFIG code
      then (Inl OSError,
            s\<lparr>trace := trace s @ [Write (address s) GYRO_CONFIG 0x00,
                                    Write (address s) GYRO_CONFIG code]\<rparr>)
      else (Inr (),
            s\<lparr>trace := trace s @ [Write (address s) GYRO_CONFIG 0x00,
                                    Write (address s) GYRO_CONFIG code],
              gyro_range := Some rng\<rparr>))"
  using assms by (simp add: set_gyro_range_def write_byte_data_def)

lemma set_accel_range_invalid:
  "ACCEL_RANGE_MAP rng = None \<Longrightarrow> set_accel_range b s rng = (Inl ValueError, s)"
  by (simp add: set_accel_range_def)

lemma set_gyro_range_invalid:
  "GYRO_RANGE_MAP rng = None \<Longrightarrow> set_gyro_range b s rng = (Inl ValueError, s)"
  by (simp add: set_gyro_range_def)

text \<open>
  Claim C5. For a valid range argument, \<^verbatim>\<open>set_accel_range\<close> and \<^verbatim>\<open>set_gyro_range\<close>
  write 0x00 and then the range's device code to their configuration register, and
  store the new range only after both writes succeeded. If the first write fails the
  call raises OSError after that single write; if the second fails it raises OSError
  after both; in either case the stored range is unchanged. The device codes are
  2g: 0x00, 4g: 0x08, 8g: 0x10, 16g: 0x18, and the same four for the gyroscope ranges.
\<close>

theorem set_range_two_writes_then_store:
  "(ACCEL_RANGE_MAP rng = Some code \<longrightarrow>
      set_accel_range b s rng =
        (if \<not> bus_write b (trace s) (address s) ACCEL_CONFIG 0x00
         then (Inl OSError, s\<lparr>trace := trace s @ [Write (address s) ACCEL_CONFIG 0x00]\<rparr>)
         else if \<not> bus_write b (trace s @ [Write (address s) ACCEL_CONFIG 0x00])
                      (address s) ACCEL_CONFIG code
         then (Inl OSError,
               s\<lparr>trace := trace s @ [Write (address s) ACCEL_CONFIG 0x00,
                                       Write (address s) ACCEL_CONFIG code]\<rparr>)
         else (Inr (),
               s\<lparr>trace := trace s @ [Write (address s) ACCEL_CONFIG 0x00,
                                       Write (address s) ACCEL_CONFIG code],
                 accel_range := Some rng\<rparr>))) \<and>
   (GYRO_RANGE_MAP grng = Some gcode \<longrightarrow>
      set_gyro_range b s grng =
        (if \<not> bus_write b (trace s) (address s) GYRO_CONFIG 0x00
         then (Inl OSError, s\<lparr>trace := trace s @ [Write (address s) GYRO_CONFIG 0x00]\<rparr>)
         else if \<not> bus_write b (trace s @ [Write (address s) GYRO_CONFIG 0x00])
                      (address s) GYRO_CONFIG gcode
         then (Inl OSError,
               s\<lparr>trace := trace s @ [Write (address s) GYRO_CONFIG 0x00,
                                       Write (address s) GYRO_CONFIG gcode]\<rparr>)
         else (Inr (),
               s\<lparr>trace := trace s @ [Write (address s) GYRO_CONFIG 0x00,
                                       Write (address s) GYRO_CONFIG gcode],
                 gyro_range := Some grng\<rparr>))) \<and>
   ACCEL_CONFIG = 0x1C \<and> GYRO_CONFIG = 0x1B \<and>
   ACCEL_RANGE_MAP ''2g'' = Some 0x00 \<and> ACCEL_RANGE_MAP ''4g'' = Some 0x08 \<and>
   ACCEL_RANGE_MAP ''8g'' = Some 0x10 \<and> ACCEL_RANGE_MAP ''16g'' = Some 0x18 \<and>
   GYRO_RANGE_MAP ''250deg'' = Some 0x00 \<and> GYRO_RANGE_MAP ''500deg'' = Some 0x08 \<and>
   GYRO_RANGE_MAP ''1000deg'' = Some 0x10 \<and> GYRO_RANGE_MAP ''2000deg'' = Some 0x18"
proof -
  have tables: "ACCEL_CONFIG = 0x1C \<and> GYRO_CONFIG = 0x1B \<and>
   ACCEL_RANGE_MAP ''2g'' = Some 0x00 \<and> ACCEL_RANGE_MAP ''4g'' = Some 0x08 \<and>
   ACCEL_RANGE_MAP ''8g'' = Some 0x10 \<and> ACCEL_RANGE_MAP ''16g'' = Some 0x18 \<and>
   GYRO_RANGE_MAP ''250deg'' = Some 0x00 \<and> GYRO_RANGE_MAP ''500deg'' = Some 0x08 \<and>
   GYRO_RANGE_MAP ''1000deg'' = Some 0x10 \<and> GYRO_RANGE_MAP ''2000deg'' = Some 0x18"
    by (simp add: ACCEL_CONFIG_def GYRO_CONFIG_def ACCEL_RANGE_MAP_def GYRO_RANGE_MAP_def)
  show ?thesis
    using set_accel_range_valid [of rng code b s] set_gyro_range_valid [of grng gcode b s]
      tables
    by blast
qed

theorem set_range_two_writes_then_store_witness:
  "set_accel_range
     \<lparr>bus_read = (\<lambda>h a r. None), bus_write = (\<lambda>h a r v. True)\<rparr>
     \<lparr>address = 0x68, accel_range = Some ''4g'', gyro_range = Some ''500deg'', trace = []\<rparr>
     ''8g''
   = (Inr (),
      \<lparr>address = 0x68, accel_range = Some ''8g'', gyro_range = Some ''500deg'',
       trace = [Write 0x68 0x1C 0x00, Write 0x68 0x1C 0x10]\<rparr>) \<and>
   set_gyro_range
     \<lparr>bus_read = (\<lambda>h a r. None), bus_write = (\<lambda>h a r v. h = [])\<rparr>
     \<lparr>address = 0x68, accel_range = Some ''4g'', gyro_range = Some ''500deg'', trace = []\<rparr>
     ''2000deg''
   = (Inl OSError,
      \<lparr>address = 0x68, accel_range = Some ''4g'', gyro_range = Some ''500deg'',
       trace = [Write 0x68 0x1B 0x00, Write 0x68 0x1B 0x18]\<rparr>)"
proof -
  have ha: "ACCEL_RANGE_MAP ''8g'' = Some 0x10"
    by (simp add: ACCEL_RANGE_MAP_def)
  have hg: "GYRO_RANGE_MAP ''2000deg'' = Some 0x18"
    by (simp add: GYRO_RANGE_MAP_def)
  note accel = set_range_two_writes_then_store
    [of "''8g''" "0x10"
        "\<lparr>bus_read = (\<lambda>h a r. None), bus_write = (\<lambda>h a r v. True)\<rparr>"
        "\<lparr>address = 0x68, accel_range = Some ''4g'', gyro_range = Some ''500deg'', trace = []\<rparr>"
        "''2000deg''" "0x18", THEN conjunct1, rule_format, OF ha]
  note gyro = set_range_two_writes_then_store
    [of "''8g''" "0x10"
        "\<lparr>bus_read = (\<lambda>h a r. None), bus_write = (\<lambda>h a r v. h = [])\<rparr>"
        "\<lparr>address = 0x68, accel_range = Some ''4g'', gyro_range = Some ''500deg'', trace = []\<rparr>"
        "''2000deg''" "0x18", THEN conjunct2, THEN conjunct1, rule_format, OF hg]
  show ?thesis
    by (simp add: accel gyro ACCEL_CONFIG_def GYRO_CONFIG_def)
qed

text \<open>
  Claim C6. For a range argument that is not one of the enumerated values,
  \<^verbatim>\<open>set_accel_range\<close> and \<^verbatim>\<open>set_gyro_range\<close> raise ValueError and leave the object
  as it was: the stored range is unchanged and no bus transaction has been issued.
\<close>

theorem set_range_invalid_rejected:
  "(rng \<notin> {''2g'', ''4g'', ''8g'', ''16g''} \<longrightarrow>
      set_accel_range b s rng = (Inl ValueError, s)) \<and>
   (grng \<notin> {''250deg'', ''500deg'', ''1000deg'', ''2000deg''} \<longrightarrow>
      set_gyro_range b s grng = (Inl ValueError, s))"
proof -
  have "rng \<notin> dom ACCEL_RANGE_MAP \<longrightarrow> set_accel_range b s rng = (Inl ValueError, s)"
    by (simp add: set_accel_range_invalid domIff)
  moreover have "grng \<notin> dom GYRO_RANGE_MAP \<longrightarrow> set_gyro_range b s grng = (Inl ValueError, s)"
    by (simp add: set_gyro_range_invalid domIff)
  ultimately show ?thesis
    unfolding ACCEL_RANGE_MAP_dom GYRO_RANGE_MAP_dom by blast
qed

theorem set_range_invalid_rejected_witness:
  "set_accel_range
     \<lparr>bus_read = (\<lambda>h a r. None), bus_write = (\<lambda>h a r v. True)\<rparr>
     \<lparr>address = 0x68, accel_range = Some ''4g'', gyro_range = Some ''500deg'', trace = []\<rparr>
     ''3g''
   = (Inl ValueError,
      \<lparr>address = 0x68, accel_range = Some ''4g'', gyro_range = Some ''500deg'', trace = []\<rparr>) \<and>
   set_gyro_range
     \<lparr>bus_read = (\<lambda>h a r. None), bus_write = (\<lambda>h a r v. True)\<rparr>
     \<lparr>address = 0x68, accel_range = Some ''4g'', gyro_range = Some ''500deg'', trace = []\<rparr>
     ''300deg''
   = (Inl ValueError,
      \<lparr>address = 0x68, accel_range = Some ''4g'', gyro_range = Some ''500deg'', trace = []\<rparr>)"
proof -
  have ha: "''3g'' \<notin> {''2g'', ''4g'', ''8g'', ''16g''}" by simp
  have hg: "''300deg'' \<notin> {''250deg'', ''500deg'', ''1000deg'', ''2000deg''}" by simp
  note r = set_range_invalid_rejected
    [of "''3g''"
        "\<lparr>bus_read = (\<lambda>h a r. None), bus_write = (\<lambda>h a r v. True)\<rparr>"
        "\<lparr>address = 0x68, accel_range = Some ''4g'', gyro_range = Some ''500deg'', trace = []\<rparr>"
        "''300deg''"]
  from r [THEN conjunct1, rule_format, OF ha] r [THEN conjunct2, rule_format, OF hg]
  show ?thesis by (rule conjI)
qed

section \<open>The stored ranges stay valid\<close>

subsection \<open>Frame: which attributes a call can change\<close>

lemma read_i2c_word_frame: "\<exists>w t. read_i2c_word b s r = (Inr w, s\<lparr>trace := t\<rparr>)"
  by (auto simp: read_i2c_word_def read_byte_data_def split: option.splits)

lemma read_words_frame:
  "\<exists>ws t. read_words b s regs = (Inr ws, s\<lparr>trace := t\<rparr>) \<and> length ws = length regs"
proof (induction regs arbitrary: s)
  case Nil
  have "s = s\<lparr>trace := trace s\<rparr>" by simp
  then show ?case by (metis read_words.simps(1) list.size(3) length_0_conv)
next
  case (Cons reg regs)
  obtain w t where w: "read_i2c_word b s reg = (Inr w, s\<lparr>trace := t\<rparr>)"
    using read_i2c_word_frame by blast
  obtain ws t' where ws: "read_words b (s\<lparr>trace := t\<rparr>) regs = (Inr ws, s\<lparr>trace := t, trace := t'\<rparr>)"
    "length ws = length regs"
    using Cons.IH [of "s\<lparr>trace := t\<rparr>"] by blast
  have "read_words b s (reg # regs) = (Inr (w # ws), s\<lparr>trace := t'\<rparr>)"
    using w ws by simp
  then show ?case using ws(2) by auto
qed

lemma get_temp_frame: "\<exists>res t. get_temp b s = (res, s\<lparr>trace := t\<rparr>)"
proof -
  obtain w t where "read_i2c_word b s TEMP_OUTH = (Inr w, s\<lparr>trace := t\<rparr>)"
    using read_i2c_word_frame by blast
  then show ?thesis by (auto simp: get_temp_def)
qed

lemma get_accel_data_frame: "\<exists>res t. get_accel_data b s = (res, s\<lparr>trace := t\<rparr>)"
proof -
  obtain ws t where
    "read_words b s [ACCEL_XOUTH, ACCEL_YOUTH, ACCEL_ZOUTH] = (Inr ws, s\<lparr>trace := t\<rparr>)"
    using read_words_frame by blast
  then show ?thesis by (auto simp: get_accel_data_def simp del: read_words.simps)
qed

lemma get_gyro_data_frame: "\<exists>res t. get_gyro_data b s = (res, s\<lparr>trace := t\<rparr>)"
proof -
  obtain ws t where
    "read_words b s [GYRO_XOUTH, GYRO_YOUTH, GYRO_ZOUTH] = (Inr ws, s\<lparr>trace := t\<rparr>)"
    using read_words_frame by blast
  then show ?thesis by (auto simp: get_gyro_data_def simp del: read_words.simps)
qed

lemma ranges_valid_trace [simp]: "ranges_valid (s\<lparr>trace := t\<rparr>) = ranges_valid s"
  by (simp add: ranges_valid_def)

lemma set_accel_range_ranges_valid:
  assumes "gyro_range s \<in> Some ` {''250deg'', ''500deg'', ''1000deg'', ''2000deg''}"
  shows "ranges_valid (snd (set_accel_range b s rng)) \<longleftrightarrow>
         ranges_valid s \<or> fst (set_accel_range b s rng) = Inr ()"
proof (cases "ACCEL_RANGE_MAP rng")
  case None
  then show ?thesis by (simp add: set_accel_range_invalid)
next
  case (Some code)
  then have "rng \<in> dom ACCEL_RANGE_MAP" by auto
  then have "rng \<in> {''2g'', ''4g'', ''8g'', ''16g''}"
    by (simp only: ACCEL_RANGE_MAP_dom)
  then show ?thesis
    using assms by (auto simp: set_accel_range_valid [OF Some] ranges_valid_def)
qed

lemma set_gyro_range_ranges_valid:
  assumes "accel_range s \<in> Some ` {''2g'', ''4g'', ''8g'', ''16g''}"
  shows "ranges_valid (snd (set_gyro_range b s rng)) \<longleftrightarrow>
         ranges_valid s \<or> fst (set_gyro_range b s rng) = Inr ()"
proof (cases "GYRO_RANGE_MAP rng")
  case None
  then show ?thesis by (simp add: set_gyro_range_invalid)
next
  case (Some code)
  then have "rng \<in> dom GYRO_RANGE_MAP" by auto
  then have "rng \<in> {''250deg'', ''500deg'', ''1000deg'', ''2000deg''}"
    by (simp only: GYRO_RANGE_MAP_dom)
  then show ?thesis
    using assms by (auto simp: set_gyro_range_valid [OF Some] ranges_valid_def)
qed

lemma exec_ranges_valid: "ranges_valid s \<Longrightarrow> ranges_valid (exec b s c)"
proof (cases c)
  case (Call_read_i2c_word r)
  assume "ranges_valid s"
  then show ?thesis
    using read_i2c_word_frame [of b s r] Call_read_i2c_word by auto
next
  case Call_get_temp
  assume "ranges_valid s"
  then show ?thesis using get_temp_frame [of b s] Call_get_temp by auto
next
  case (Call_set_accel_range r)
  assume "ranges_valid s"
  then show ?thesis
    using set_accel_range_ranges_valid [of s b r] Call_set_accel_range
    by (simp add: ranges_valid_def)
next
  case Call_get_accel_data
  assume "ranges_valid s"
  then show ?thesis using get_accel_data_frame [of b s] Call_get_accel_data by auto
next
  case (Call_set_gyro_range r)
  assume "ranges_valid s"
  then show ?thesis
    using set_gyro_range_ranges_valid [of s b r] Call_set_gyro_range
    by (simp add: ranges_valid_def)
next
  case Call_get_gyro_data
  assume "ranges_valid s"
  then show ?thesis using get_gyro_data_frame [of b s] Call_get_gyro_data by auto
qed

lemma run_ranges_valid: "ranges_valid s \<Longrightarrow> ranges_valid (run b s calls)"
  unfolding run_def by (induction calls arbitrary: s) (simp_all add: exec_ranges_valid)

lemma init_ranges_valid:
  assumes "init b addr = (Inr (), s)"
  shows "ranges_valid s"
proof -
  have a: "ACCEL_RANGE_MAP ''4g'' = Some 0x08" by (simp add: ACCEL_RANGE_MAP_def)
  have g: "GYRO_RANGE_MAP ''500deg'' = Some 0x08" by (simp add: GYRO_RANGE_MAP_def)
  show ?thesis
    using assms
    by (auto simp: init_def Let_def write_byte_data_def set_accel_range_valid [OF a]
        set_gyro_range_valid [OF g] ranges_valid_def split: if_splits)
qed

text \<open>
  Claim C9. After a successful construction, and after any sequence of method calls on
  the constructed object, whether they return or raise, the stored accelerometer range
  is one of 2g, 4g, 8g, 16g and the stored gyroscope range is one of 250deg, 500deg,
  1000deg, 2000deg; hence the scale-divisor lookups of the vector reads find a
  (non-zero) divisor.
\<close>

theorem ranges_valid_invariant:
  assumes "init b addr = (Inr (), s0)"
  shows "ranges_valid (run b s0 calls) \<and>
         (\<exists>ra rg da dg.
            accel_range (run b s0 calls) = Some ra \<and>
            ra \<in> {''2g'', ''4g'', ''8g'', ''16g''} \<and>
            ACCEL_SCALE_MAP ra = Some da \<and> da \<noteq> 0 \<and>
            gyro_range (run b s0 calls) = Some rg \<and>
            rg \<in> {''250deg'', ''500deg'', ''1000deg'', ''2000deg''} \<and>
            GYRO_SCALE_MAP rg = Some dg \<and> dg \<noteq> 0)"
proof -
  have v: "ranges_valid (run b s0 calls)"
    using init_ranges_valid [OF assms] by (rule run_ranges_valid)
  then obtain ra rg where r:
    "accel_range (run b s0 calls) = Some ra" "ra \<in> {''2g'', ''4g'', ''8g'', ''16g''}"
    "gyro_range (run b s0 calls) = Some rg"
    "rg \<in> {''250deg'', ''500deg'', ''1000deg'', ''2000deg''}"
    by (auto simp: ranges_valid_def)
  obtain da where da: "ACCEL_SCALE_MAP ra = Some da" "da \<noteq> 0"
    using ACCEL_SCALE_MAP_nonzero [OF r(2)] by blast
  obtain dg where dg: "GYRO_SCALE_MAP rg = Some dg" "dg \<noteq> 0"
    using GYRO_SCALE_MAP_nonzero [OF r(4)] by blast
  from v r da dg show ?thesis by blast
qed

theorem ranges_valid_invariant_witness:
  "ranges_valid
     (run \<lparr>bus_read = (\<lambda>h a r. None), bus_write = (\<lambda>h a r v. True)\<rparr>
          \<lparr>address = 0x68, accel_range = Some ''4g'', gyro_range = Some ''500deg'',
           trace = [Write 0x68 0x6B 0x00, Write 0x68 0x1C 0x00, Write 0x68 0x1C 0x08,
                    Write 0x68 0x1B 0x00, Write 0x68 0x1B 0x08]\<rparr>
          [Call_set_accel_range ''16g'', Call_set_gyro_range ''90deg'', Call_get_accel_data])"
proof -
  have i: "init \<lparr>bus_read = (\<lambda>h a r. None), bus_write = (\<lambda>h a r v. True)\<rparr> 0x68
     = (Inr (),
        \<lparr>address = 0x68, accel_range = Some ''4g'', gyro_range = Some ''500deg'',
         trace = [Write 0x68 0x6B 0x00, Write 0x68 0x1C 0x00, Write 0x68 0x1C 0x08,
                  Write 0x68 0x1B 0x00, Write 0x68 0x1B 0x08]\<rparr>)"
    by (simp add: init_def set_accel_range_def set_gyro_range_def write_byte_data_def
        ACCEL_RANGE_MAP_def GYRO_RANGE_MAP_def PWR_MGMT_1_def ACCEL_CONFIG_def GYRO_CONFIG_def)
  from ranges_valid_invariant [OF i] show ?thesis by blast
qed

section \<open>Properties of the vector reads\<close>

subsection \<open>The conversion block\<close>

lemma convert_xyz_three:
  assumes none: "elem None = Inl TypeError"
      and some: "\<And>i. elem (Some i) = Inr (f i)"
  shows "convert_xyz elem [wx, wy, wz] =
           Inr (if wx = None \<or> wy = None \<or> wz = None then [None, None, None]
                else [Some (f (the wx)), Some (f (the wy)), Some (f (the wz))])"
  by (cases wx; cases wy; cases wz)
     (simp_all add: convert_xyz_def try_except_def bind_err_def none some)

lemma accel_elem_None:
  "accel_range s = Some r \<Longrightarrow> accel_elem s None = Inl TypeError"
  by (simp add: accel_elem_def getattr_def bind_err_def py_truediv_def)

lemma accel_elem_Some:
  "accel_range s = Some r \<Longrightarrow> ACCEL_SCALE_MAP r = Some d \<Longrightarrow> d \<noteq> 0 \<Longrightarrow>
   accel_elem s (Some i) = Inr (real_of_int i / d * GRAVITIY_MS2)"
  by (simp add: accel_elem_def getattr_def bind_err_def py_truediv_def)

lemma gyro_elem_None:
  "gyro_range s = Some r \<Longrightarrow> gyro_elem s None = Inl TypeError"
  by (simp add: gyro_elem_def getattr_def bind_err_def py_truediv_def)

lemma gyro_elem_Some:
  "gyro_range s = Some r \<Longrightarrow> GYRO_SCALE_MAP r = Some d \<Longrightarrow> d \<noteq> 0 \<Longrightarrow>
   gyro_elem s (Some i) = Inr (real_of_int i / d)"
  by (simp add: gyro_elem_def getattr_def bind_err_def py_truediv_def)

lemma xyz_dict_three: "xyz_dict [a, b, c] = \<lparr>key_x = a, key_y = b, key_z = c\<rparr>"
  by (simp add: xyz_dict_def)

subsection \<open>The three word reads of a vector read\<close>

lemma read_words_three:
  assumes "read_i2c_word b s r1 = (Inr w1, s1)"
      and "read_i2c_word b s1 r2 = (Inr w2, s2)"
      and "read_i2c_word b s2 r3 = (Inr w3, s3)"
  shows "read_words b s [r1, r2, r3] = (Inr [w1, w2, w3], s3)"
  using assms by simp

lemma three_reads_exist:
  "\<exists>w1 w2 w3 t1 t2 t3.
     read_i2c_word b s r1 = (Inr w1, s\<lparr>trace := t1\<rparr>) \<and>
     read_i2c_word b (s\<lparr>trace := t1\<rparr>) r2 = (Inr w2, s\<lparr>trace := t2\<rparr>) \<and>
     read_i2c_word b (s\<lparr>trace := t2\<rparr>) r3 = (Inr w3, s\<lparr>trace := t3\<rparr>)"
proof -
  obtain w1 t1 where 1: "read_i2c_word b s r1 = (Inr w1, s\<lparr>trace := t1\<rparr>)"
    using read_i2c_word_frame by blast
  obtain w2 t2 where 2: "read_i2c_word b (s\<lparr>trace := t1\<rparr>) r2 = (Inr w2, s\<lparr>trace := t2\<rparr>)"
    using read_i2c_word_frame [of b "s\<lparr>trace := t1\<rparr>" r2] by auto
  obtain w3 t3 where 3: "read_i2c_word b (s\<lparr>trace := t2\<rparr>) r3 = (Inr w3, s\<lparr>trace := t3\<rparr>)"
    using read_i2c_word_frame [of b "s\<lparr>trace := t2\<rparr>" r3] by auto
  from 1 2 3 show ?thesis by blast
qed

lemma read_i2c_word_keeps_ranges:
  assumes "read_i2c_word b s r = (res, s')"
  shows "accel_range s' = accel_range s" and "gyro_range s' = gyro_range s"
  using read_i2c_word_frame [of b s r] assms by auto

lemma get_accel_data_three:
  assumes r1: "read_i2c_word b s ACCEL_XOUTH = (Inr wx, s1)"
      and r2: "read_i2c_word b s1 ACCEL_YOUTH = (Inr wy, s2)"
      and r3: "read_i2c_word b s2 ACCEL_ZOUTH = (Inr wz, s3)"
      and rng: "accel_range s = Some r"
      and dv: "ACCEL_SCALE_MAP r = Some d" "d \<noteq> 0"
  shows "get_accel_data b s =
     (Inr (if wx = None \<or> wy = None \<or> wz = None
           then \<lparr>key_x = None, key_y = None, key_z = None\<rparr>
           else \<lparr>key_x = Some (real_of_int (the wx) / d * GRAVITIY_MS2),
                 key_y = Some (real_of_int (the wy) / d * GRAVITIY_MS2),
                 key_z = Some (real_of_int (the wz) / d * GRAVITIY_MS2)\<rparr>), s3)"
proof -
  have rng3: "accel_range s3 = Some r"
    using read_i2c_word_keeps_ranges(1) [OF r1] read_i2c_word_keeps_ranges(1) [OF r2]
      read_i2c_word_keeps_ranges(1) [OF r3] rng by simp
  have rw: "read_words b s [ACCEL_XOUTH, ACCEL_YOUTH, ACCEL_ZOUTH] = (Inr [wx, wy, wz], s3)"
    using r1 r2 r3 by (rule read_words_three)
  have cv: "convert_xyz (accel_elem s3) [wx, wy, wz] =
      Inr (if wx = None \<or> wy = None \<or> wz = None then [None, None, None]
           else [Some (real_of_int (the wx) / d * GRAVITIY_MS2),
                 Some (real_of_int (the wy) / d * GRAVITIY_MS2),
                 Some (real_of_int (the wz) / d * GRAVITIY_MS2)])"
    by (rule convert_xyz_three) (simp_all add: accel_elem_None [OF rng3] accel_elem_Some [OF rng3 dv])
  show ?thesis
    unfolding get_accel_data_def rw by (simp add: cv bind_err_def xyz_dict_three)
qed

lemma get_gyro_data_three:
  assumes r1: "read_i2c_word b s GYRO_XOUTH = (Inr wx, s1)"
      and r2: "read_i2c_word b s1 GYRO_YOUTH = (Inr wy, s2)"
      and r3: "read_i2c_word b s2 GYRO_ZOUTH = (Inr wz, s3)"
      and rng: "gyro_range s = Some r"
      and dv: "GYRO_SCALE_MAP r = Some d" "d \<noteq> 0"
  shows "get_gyro_data b s =
     (Inr (if wx = None \<or> wy = None \<or> wz = None
           then \<lparr>key_x = None, key_y = None, key_z = None\<rparr>
           else \<lparr>key_x = Some (real_of_int (the wx) / d),
                 key_y = Some (real_of_int (the wy) / d),
                 key_z = Some (real_of_int (the wz) / d)\<rparr>), s3)"
proof -
  have rng3: "gyro_range s3 = Some r"
    using read_i2c_word_keeps_ranges(2) [OF r1] read_i2c_word_keeps_ranges(2) [OF r2]
      read_i2c_word_keeps_ranges(2) [OF r3] rng by simp
  have rw: "read_words b s [GYRO_XOUTH, GYRO_YOUTH, GYRO_ZOUTH] = (Inr [wx, wy, wz], s3)"
    using r1 r2 r3 by (rule read_words_three)
  have cv: "convert_xyz (gyro_elem s3) [wx, wy, wz] =
      Inr (if wx = None \<or> wy = None \<or> wz = None then [None, None, None]
           else [Some (real_of_int (the wx) / d),
                 Some (real_of_int (the wy) / d),
                 Some (real_of_int (the wz) / d)])"
    by (rule convert_xyz_three) (simp_all add: gyro_elem_None [OF rng3] gyro_elem_Some [OF rng3 dv])
  show ?thesis
    unfolding get_gyro_data_def rw by (simp add: cv bind_err_def xyz_dict_three)
qed

text \<open>
  Claim C3. On an object whose stored ranges are valid, \<^verbatim>\<open>get_accel_data\<close> and
  \<^verbatim>\<open>get_gyro_data\<close> perform their three word reads and return a dictionary: if any
  of the three reads gave \<^verbatim>\<open>None\<close>, all of x, y and z are \<^verbatim>\<open>None\<close>; if all three
  gave a value, x, y and z are the converted numbers, each raw value divided by the
  scale divisor of the stored range (and, for the accelerometer, multiplied by 9.80665).
\<close>

theorem vector_read_all_or_nothing:
  assumes "ranges_valid s"
  shows "(\<exists>wx wy wz s1 s2 s3 d ra da.
            read_i2c_word b s ACCEL_XOUTH = (Inr wx, s1) \<and>
            read_i2c_word b s1 ACCEL_YOUTH = (Inr wy, s2) \<and>
            read_i2c_word b s2 ACCEL_ZOUTH = (Inr wz, s3) \<and>
            accel_range s = Some ra \<and> ACCEL_SCALE_MAP ra = Some da \<and> da \<noteq> 0 \<and>
            get_accel_data b s = (Inr d, s3) \<and>
            (wx = None \<or> wy = None \<or> wz = None \<longrightarrow>
               d = \<lparr>key_x = None, key_y = None, key_z = None\<rparr>) \<and>
            (\<forall>ix iy iz. wx = Some ix \<and> wy = Some iy \<and> wz = Some iz \<longrightarrow>
               d = \<lparr>key_x = Some (real_of_int ix / da * 9.80665),
                     key_y = Some (real_of_int iy / da * 9.80665),
                     key_z = Some (real_of_int iz / da * 9.80665)\<rparr>)) \<and>
         (\<exists>wx wy wz s1 s2 s3 d rg dg.
            read_i2c_word b s GYRO_XOUTH = (Inr wx, s1) \<and>
            read_i2c_word b s1 GYRO_YOUTH = (Inr wy, s2) \<and>
            read_i2c_word b s2 GYRO_ZOUTH = (Inr wz, s3) \<and>
            gyro_range s = Some rg \<and> GYRO_SCALE_MAP rg = Some dg \<and> dg \<noteq> 0 \<and>
            get_gyro_data b s = (Inr d, s3) \<and>
            (wx = None \<or> wy = None \<or> wz = None \<longrightarrow>
               d = \<lparr>key_x = None, key_y = None, key_z = None\<rparr>) \<and>
            (\<forall>ix iy iz. wx = Some ix \<and> wy = Some iy \<and> wz = Some iz \<longrightarrow>
               d = \<lparr>key_x = Some (real_of_int ix / dg),
                     key_y = Some (real_of_int iy / dg),
                     key_z = Some (real_of_int iz / dg)\<rparr>))"
proof (rule conjI)
  obtain ra where ra: "accel_range s = Some ra" "ra \<in> {''2g'', ''4g'', ''8g'', ''16g''}"
    using assms by (auto simp: ranges_valid_def)
  obtain da where da: "ACCEL_SCALE_MAP ra = Some da" "da \<noteq> 0"
    using ACCEL_SCALE_MAP_nonzero [OF ra(2)] by blast
  obtain wx wy wz t1 t2 t3 where rd:
    "read_i2c_word b s ACCEL_XOUTH = (Inr wx, s\<lparr>trace := t1\<rparr>)"
    "read_i2c_word b (s\<lparr>trace := t1\<rparr>) ACCEL_YOUTH = (Inr wy, s\<lparr>trace := t2\<rparr>)"
    "read_i2c_word b (s\<lparr>trace := t2\<rparr>) ACCEL_ZOUTH = (Inr wz, s\<lparr>trace := t3\<rparr>)"
    using three_reads_exist [of b s ACCEL_XOUTH ACCEL_YOUTH ACCEL_ZOUTH] by blast
  note g = get_accel_data_three [OF rd ra(1) da]
  show "\<exists>wx wy wz s1 s2 s3 d ra da.
            read_i2c_word b s ACCEL_XOUTH = (Inr wx, s1) \<and>
            read_i2c_word b s1 ACCEL_YOUTH = (Inr wy, s2) \<and>
            read_i2c_word b s2 ACCEL_ZOUTH = (Inr wz, s3) \<and>
            accel_range s = Some ra \<and> ACCEL_SCALE_MAP ra = Some da \<and> da \<noteq> 0 \<and>
            get_accel_data b s = (Inr d, s3) \<and>
            (wx = None \<or> wy = None \<or> wz = None \<longrightarrow>
               d = \<lparr>key_x = None, key_y = None, key_z = None\<rparr>) \<and>
            (\<forall>ix iy iz. wx = Some ix \<and> wy = Some iy \<and> wz = Some iz \<longrightarrow>
               d = \<lparr>key_x = Some (real_of_int ix / da * 9.80665),
                     key_y = Some (real_of_int iy / da * 9.80665),
                     key_z = Some (real_of_int iz / da * 9.80665)\<rparr>)"
    apply (intro exI conjI)
            apply (rule rd(1))
           apply (rule rd(2))
          apply (rule rd(3))
         apply (rule ra(1))
        apply (rule da(1))
       apply (rule da(2))
      apply (rule g)
     apply simp
    apply (simp add: GRAVITIY_MS2_def)
    done
next
  obtain rg where rg: "gyro_range s = Some rg"
    "rg \<in> {''250deg'', ''500deg'', ''1000deg'', ''2000deg''}"
    using assms by (auto simp: ranges_valid_def)
  obtain dg where dg: "GYRO_SCALE_MAP rg = Some dg" "dg \<noteq> 0"
    using GYRO_SCALE_MAP_nonzero [OF rg(2)] by blast
  obtain wx wy wz t1 t2 t3 where rd:
    "read_i2c_word b s GYRO_XOUTH = (Inr wx, s\<lparr>trace := t1\<rparr>)"
    "read_i2c_word b (s\<lparr>trace := t1\<rparr>) GYRO_YOUTH = (Inr wy, s\<lparr>trace := t2\<rparr>)"
    "read_i2c_word b (s\<lparr>trace := t2\<rparr>) GYRO_ZOUTH = (Inr wz, s\<lparr>trace := t3\<rparr>)"
    using three_reads_exist [of b s GYRO_XOUTH GYRO_YOUTH GYRO_ZOUTH] by blast
  note g = get_gyro_data_three [OF rd rg(1) dg]
  show "\<exists>wx wy wz s1 s2 s3 d rg dg.
            read_i2c_word b s GYRO_XOUTH = (Inr wx, s1) \<and>
            read_i2c_word b s1 GYRO_YOUTH = (Inr wy, s2) \<and>
            read_i2c_word b s2 GYRO_ZOUTH = (Inr wz, s3) \<and>
            gyro_range s = Some rg \<and> GYRO_SCALE_MAP rg = Some dg \<and> dg \<noteq> 0 \<and>
            get_gyro_data b s = (Inr d, s3) \<and>
            (wx = None \<or> wy = None \<or> wz = None \<longrightarrow>
               d = \<lparr>key_x = None, key_y = None, key_z = None\<rparr>) \<and>
            (\<forall>ix iy iz. wx = Some ix \<and> wy = Some iy \<and> wz = Some iz \<longrightarrow>
               d = \<lparr>key_x = Some (real_of_int ix / dg),
                     key_y = Some (real_of_int iy / dg),
                     key_z = Some (real_of_int iz / dg)\<rparr>)"
    apply (intro exI conjI)
            apply (rule rd(1))
           apply (rule rd(2))
          apply (rule rd(3))
         apply (rule rg(1))
        apply (rule dg(1))
       apply (rule dg(2))
      apply (rule g)
     apply simp
    apply simp
    done
qed

theorem vector_read_all_or_nothing_witness:
  "fst (get_accel_data
         \<lparr>bus_read = (\<lambda>h a r. if r = 0x3D then None else if r = 0x44 then Some 0x83
                               else if r = 0x45 then Some 0xFF
                               else if r = 0x46 then Some 0x7D else Some 0x00),
          bus_write = (\<lambda>h a r v. True)\<rparr>
         \<lparr>address = 0x68, accel_range = Some ''4g'', gyro_range = Some ''250deg'', trace = []\<rparr>)
     = Inr \<lparr>key_x = None, key_y = None, key_z = None\<rparr> \<and>
   fst (get_gyro_data
         \<lparr>bus_read = (\<lambda>h a r. if r = 0x3D then None else if r = 0x44 then Some 0x83
                               else if r = 0x45 then Some 0xFF
                               else if r = 0x46 then Some 0x7D else Some 0x00),
          bus_write = (\<lambda>h a r v. True)\<rparr>
         \<lparr>address = 0x68, accel_range = Some ''4g'', gyro_range = Some ''250deg'', trace = []\<rparr>)
     = Inr \<lparr>key_x = Some 1, key_y = Some (- 1), key_z = Some 0\<rparr> \<and>
   fst (get_accel_data
         \<lparr>bus_read = (\<lambda>h a r. if r = 0x47 then None else if r = 0x3B then Some 0x20
                               else if r = 0x3F then Some 0xE0 else Some 0x00),
          bus_write = (\<lambda>h a r v. True)\<rparr>
         \<lparr>address = 0x68, accel_range = Some ''4g'', gyro_range = Some ''250deg'', trace = []\<rparr>)
     = Inr \<lparr>key_x = Some 9.80665, key_y = Some 0, key_z = Some (- 9.80665)\<rparr> \<and>
   fst (get_gyro_data
         \<lparr>bus_read = (\<lambda>h a r. if r = 0x47 then None else if r = 0x3B then Some 0x20
                               else if r = 0x3F then Some 0xE0 else Some 0x00),
          bus_write = (\<lambda>h a r v. True)\<rparr>
         \<lparr>address = 0x68, accel_range = Some ''4g'', gyro_range = Some ''250deg'', trace = []\<rparr>)
     = Inr \<lparr>key_x = None, key_y = None, key_z = None\<rparr>"
proof -
  define A :: smbus where
    "A = \<lparr>bus_read = (\<lambda>h a r. if r = 0x3D then None else if r = 0x44 then Some 0x83
                               else if r = 0x45 then Some 0xFF
                               else if r = 0x46 then Some 0x7D else Some 0x00),
          bus_write = (\<lambda>h a r v. True)\<rparr>"
  define B :: smbus where
    "B = \<lparr>bus_read = (\<lambda>h a r. if r = 0x47 then None else if r = 0x3B then Some 0x20
                               else if r = 0x3F then Some 0xE0 else Some 0x00),
          bus_write = (\<lambda>h a r v. True)\<rparr>"
  define S :: mpu6050 where
    "S = \<lparr>address = 0x68, accel_range = Some ''4g'', gyro_range = Some ''250deg'', trace = []\<rparr>"
  have h: "ranges_valid S"
    by (simp add: ranges_valid_def S_def)
  have am: "ACCEL_SCALE_MAP ''4g'' = Some 8192" by (simp add: ACCEL_SCALE_MAP_def)
  have gm: "GYRO_SCALE_MAP ''250deg'' = Some 131" by (simp add: GYRO_SCALE_MAP_def)

  have A_ay: "read_i2c_word A s1 ACCEL_YOUTH = (Inr w, s2) \<Longrightarrow> w = None" for s1 w s2
    by (simp add: A_def read_i2c_word_def read_byte_data_def ACCEL_YOUTH_def)
  have A_gx: "read_i2c_word A s1 GYRO_XOUTH = (Inr w, s2) \<Longrightarrow> w = Some 131" for s1 w s2
    by (auto simp: A_def read_i2c_word_def read_byte_data_def GYRO_XOUTH_def combine_word_def)
  have A_gy: "read_i2c_word A s1 GYRO_YOUTH = (Inr w, s2) \<Longrightarrow> w = Some (- 131)" for s1 w s2
    by (auto simp: A_def read_i2c_word_def read_byte_data_def GYRO_YOUTH_def combine_word_def)
  have A_gz: "read_i2c_word A s1 GYRO_ZOUTH = (Inr w, s2) \<Longrightarrow> w = Some 0" for s1 w s2
    by (auto simp: A_def read_i2c_word_def read_byte_data_def GYRO_ZOUTH_def combine_word_def)
  have B_ax: "read_i2c_word B s1 ACCEL_XOUTH = (Inr w, s2) \<Longrightarrow> w = Some 8192" for s1 w s2
    by (auto simp: B_def read_i2c_word_def read_byte_data_def ACCEL_XOUTH_def combine_word_def)
  have B_ay: "read_i2c_word B s1 ACCEL_YOUTH = (Inr w, s2) \<Longrightarrow> w = Some 0" for s1 w s2
    by (auto simp: B_def read_i2c_word_def read_byte_data_def ACCEL_YOUTH_def combine_word_def)
  have B_az: "read_i2c_word B s1 ACCEL_ZOUTH = (Inr w, s2) \<Longrightarrow> w = Some (- 8192)" for s1 w s2
    by (auto simp: B_def read_i2c_word_def read_byte_data_def ACCEL_ZOUTH_def combine_word_def)
  have B_gz: "read_i2c_word B s1 GYRO_ZOUTH = (Inr w, s2) \<Longrightarrow> w = None" for s1 w s2
    by (simp add: B_def read_i2c_word_def read_byte_data_def GYRO_ZOUTH_def)

  have 1: "fst (get_accel_data A S) = Inr \<lparr>key_x = None, key_y = None, key_z = None\<rparr>"
  proof -
    from vector_read_all_or_nothing [OF h, of A, THEN conjunct1]
    obtain wx wy wz s1 s2 s3 d where
      r: "read_i2c_word A s1 ACCEL_YOUTH = (Inr wy, s2)"
      and g: "get_accel_data A S = (Inr d, s3)"
      and n: "wx = None \<or> wy = None \<or> wz = None \<longrightarrow>
               d = \<lparr>key_x = None, key_y = None, key_z = None\<rparr>"
      by blast
    from A_ay [OF r] n g show ?thesis by simp
  qed
  have 2: "fst (get_gyro_data A S) = Inr \<lparr>key_x = Some 1, key_y = Some (- 1), key_z = Some 0\<rparr>"
  proof -
    from vector_read_all_or_nothing [OF h, of A, THEN conjunct2]
    obtain wx wy wz s1 s2 s3 d rg dg where
      r: "read_i2c_word A S GYRO_XOUTH = (Inr wx, s1)"
         "read_i2c_word A s1 GYRO_YOUTH = (Inr wy, s2)"
         "read_i2c_word A s2 GYRO_ZOUTH = (Inr wz, s3)"
      and m: "gyro_range S = Some rg" "GYRO_SCALE_MAP rg = Some dg"
      and g: "get_gyro_data A S = (Inr d, s3)"
      and v: "\<forall>ix iy iz. wx = Some ix \<and> wy = Some iy \<and> wz = Some iz \<longrightarrow>
               d = \<lparr>key_x = Some (real_of_int ix / dg),
                     key_y = Some (real_of_int iy / dg),
                     key_z = Some (real_of_int iz / dg)\<rparr>"
      by blast
    have "rg = ''250deg''" using m(1) by (simp add: S_def)
    then have dg: "dg = 131" using m(2) gm by simp
    have "d = \<lparr>key_x = Some (real_of_int 131 / dg),
                     key_y = Some (real_of_int (- 131) / dg),
                     key_z = Some (real_of_int 0 / dg)\<rparr>"
      using v A_gx [OF r(1)] A_gy [OF r(2)] A_gz [OF r(3)] by blast
    then show ?thesis using g dg by simp
  qed
  have 3: "fst (get_accel_data B S) =
             Inr \<lparr>key_x = Some 9.80665, key_y = Some 0, key_z = Some (- 9.80665)\<rparr>"
  proof -
    from vector_read_all_or_nothing [OF h, of B, THEN conjunct1]
    obtain wx wy wz s1 s2 s3 d ra da where
      r: "read_i2c_word B S ACCEL_XOUTH = (Inr wx, s1)"
         "read_i2c_word B s1 ACCEL_YOUTH = (Inr wy, s2)"
         "read_i2c_word B s2 ACCEL_ZOUTH = (Inr wz, s3)"
      and m: "accel_range S = Some ra" "ACCEL_SCALE_MAP ra = Some da"
      and g: "get_accel_data B S = (Inr d, s3)"
      and v: "\<forall>ix iy iz. wx = Some ix \<and> wy = Some iy \<and> wz = Some iz \<longrightarrow>
               d = \<lparr>key_x = Some (real_of_int ix / da * 9.80665),
                     key_y = Some (real_of_int iy / da * 9.80665),
                     key_z = Some (real_of_int iz / da * 9.80665)\<rparr>"
      by blast
    have "ra = ''4g''" using m(1) by (simp add: S_def)
    then have da: "da = 8192" using m(2) am by simp
    have "d = \<lparr>key_x = Some (real_of_int 8192 / da * 9.80665),
                     key_y = Some (real_of_int 0 / da * 9.80665),
                     key_z = Some (real_of_int (- 8192) / da * 9.80665)\<rparr>"
      using v B_ax [OF r(1)] B_ay [OF r(2)] B_az [OF r(3)] by blast
    then show ?thesis using g da by simp
  qed
  have 4: "fst (get_gyro_data B S) = Inr \<lparr>key_x = None, key_y = None, key_z = None\<rparr>"
  proof -
    from vector_read_all_or_nothing [OF h, of B, THEN conjunct2]
    obtain wx wy wz s1 s2 s3 d where
      r: "read_i2c_word B s2 GYRO_ZOUTH = (Inr wz, s3)"
      and g: "get_gyro_data B S = (Inr d, s3)"
      and n: "wx = None \<or> wy = None \<or> wz = None \<longrightarrow>
               d = \<lparr>key_x = None, key_y = None, key_z = None\<rparr>"
      by blast
    from B_gz [OF r] n g show ?thesis by simp
  qed
  from 1 2 3 4 show ?thesis
    unfolding A_def B_def S_def by (intro conjI)
qed

text \<open>
  Claim C8. When the three axis reads succeed, \<^verbatim>\<open>get_accel_data\<close> returns each raw
  value divided by the scale divisor of the stored range and multiplied by 9.80665,
  the divisor being 16384 for 2g, 8192 for 4g, 4096 for 8g and 2048 for 16g. Raw words
  (16384, 0, 0) at 2g give x = 9.80665, y = 0, z = 0.
\<close>

theorem get_accel_data_conversion:
  assumes "read_i2c_word b s ACCEL_XOUTH = (Inr (Some ix), s1)"
      and "read_i2c_word b s1 ACCEL_YOUTH = (Inr (Some iy), s2)"
      and "read_i2c_word b s2 ACCEL_ZOUTH = (Inr (Some iz), s3)"
      and "accel_range s = Some r"
      and "r \<in> {''2g'', ''4g'', ''8g'', ''16g''}"
  shows "\<exists>dv. ACCEL_SCALE_MAP r = Some dv \<and>
           dv = (if r = ''2g'' then 16384.0 else if r = ''4g'' then 8192.0
                 else if r = ''8g'' then 4096.0 else 2048.0) \<and>
           get_accel_data b s =
             (Inr \<lparr>key_x = Some (real_of_int ix / dv * 9.80665),
                   key_y = Some (real_of_int iy / dv * 9.80665),
                   key_z = Some (real_of_int iz / dv * 9.80665)\<rparr>, s3) \<and>
           (r = ''2g'' \<and> ix = 16384 \<and> iy = 0 \<and> iz = 0 \<longrightarrow>
              fst (get_accel_data b s) =
                Inr \<lparr>key_x = Some 9.80665, key_y = Some 0, key_z = Some 0\<rparr>)"
proof -
  define dv :: real where
    "dv = (if r = ''2g'' then 16384.0 else if r = ''4g'' then 8192.0
           else if r = ''8g'' then 4096.0 else 2048.0)"
  have m: "ACCEL_SCALE_MAP r = Some dv"
    using ACCEL_SCALE_MAP_values [OF assms(5)] by (simp add: dv_def)
  have nz: "dv \<noteq> 0" by (simp add: dv_def)
  have g: "get_accel_data b s =
             (Inr \<lparr>key_x = Some (real_of_int ix / dv * 9.80665),
                   key_y = Some (real_of_int iy / dv * 9.80665),
                   key_z = Some (real_of_int iz / dv * 9.80665)\<rparr>, s3)"
    using get_accel_data_three [OF assms(1-4) m nz] by (simp add: GRAVITIY_MS2_def)
  have ex: "r = ''2g'' \<and> ix = 16384 \<and> iy = 0 \<and> iz = 0 \<longrightarrow>
              fst (get_accel_data b s) =
                Inr \<lparr>key_x = Some 9.80665, key_y = Some 0, key_z = Some 0\<rparr>"
    by (simp add: g dv_def)
  from m g ex show ?thesis unfolding dv_def by blast
qed

theorem get_accel_data_conversion_witness:
  "fst (get_accel_data
         \<lparr>bus_read = (\<lambda>h a r. if r = 0x3B then Some 0x40 else Some 0x00),
          bus_write = (\<lambda>h a r v. True)\<rparr>
         \<lparr>address = 0x68, accel_range = Some ''2g'', gyro_range = Some ''500deg'', trace = []\<rparr>)
     = Inr \<lparr>key_x = Some 9.80665, key_y = Some 0, key_z = Some 0\<rparr>"
proof -
  let ?b = "\<lparr>bus_read = (\<lambda>h a r. if r = 0x3B then Some 0x40 else Some (0x00::int)),
            bus_write = (\<lambda>h a r v. True)\<rparr>"
  let ?s = "\<lambda>t. \<lparr>address = 0x68, accel_range = Some ''2g'', gyro_range = Some ''500deg'',
                 trace = t\<rparr>"
  have x: "read_i2c_word ?b (?s []) ACCEL_XOUTH
             = (Inr (Some 16384), ?s [Read 0x68 0x3B, Read 0x68 0x3C])"
    by (simp add: read_i2c_word_def read_byte_data_def ACCEL_XOUTH_def combine_word_def)
  have y: "read_i2c_word ?b (?s [Read 0x68 0x3B, Read 0x68 0x3C]) ACCEL_YOUTH
             = (Inr (Some 0),
                ?s [Read 0x68 0x3B, Read 0x68 0x3C, Read 0x68 0x3D, Read 0x68 0x3E])"
    by (simp add: read_i2c_word_def read_byte_data_def ACCEL_YOUTH_def combine_word_def)
  have z: "read_i2c_word ?b
             (?s [Read 0x68 0x3B, Read 0x68 0x3C, Read 0x68 0x3D, Read 0x68 0x3E]) ACCEL_ZOUTH
             = (Inr (Some 0),
                ?s [Read 0x68 0x3B, Read 0x68 0x3C, Read 0x68 0x3D, Read 0x68 0x3E,
                    Read 0x68 0x3F, Read 0x68 0x40])"
    by (simp add: read_i2c_word_def read_byte_data_def ACCEL_ZOUTH_def combine_word_def)
  have r: "accel_range (?s []) = Some ''2g''" by simp
  have m: "''2g'' \<in> {''2g'', ''4g'', ''8g'', ''16g''}" by simp
  from get_accel_data_conversion [OF x y z r m] show ?thesis by auto
qed

section \<open>Properties of the temperature read\<close>

lemma get_temp_ok:
  assumes "bus_read b (trace s) (address s) TEMP_OUTH = Some h"
      and "bus_read b (trace s @ [Read (address s) TEMP_OUTH]) (address s) (TEMP_OUTH + 1) = Some l"
  shows "get_temp b s =
           (Inr (real_of_int (combine_word h l) / 340.0 + 36.53),
            s\<lparr>trace := trace s @ [Read (address s) TEMP_OUTH, Read (address s) (TEMP_OUTH + 1)]\<rparr>)"
  using assms
  by (simp add: get_temp_def read_i2c_word_ok bind_err_def py_truediv_def)

lemma get_temp_None:
  assumes "read_i2c_word b s TEMP_OUTH = (Inr None, s1)"
  shows "get_temp b s = (Inl TypeError, s1)"
  using assms by (simp add: get_temp_def bind_err_def py_truediv_def)

text \<open>
  Claim C7. \<^verbatim>\<open>get_temp\<close> reads the high byte of its raw word from register 0x41 and
  the low byte from register 0x42 (the unused constant \<open>TEMP_OUTL\<close> plays no part), and
  on success returns raw / 340.0 + 36.53; raw word 340 gives 37.53.
\<close>

theorem get_temp_register_pair_and_formula:
  assumes "bus_read b (trace s) (address s) 0x41 = Some h"
      and "bus_read b (trace s @ [Read (address s) 0x41]) (address s) 0x42 = Some l"
  shows "get_temp b s =
           (Inr (real_of_int (combine_word h l) / 340.0 + 36.53),
            s\<lparr>trace := trace s @ [Read (address s) 0x41, Read (address s) 0x42]\<rparr>) \<and>
         (combine_word h l = 340 \<longrightarrow> fst (get_temp b s) = Inr 37.53)"
proof -
  have g: "get_temp b s =
           (Inr (real_of_int (combine_word h l) / 340.0 + 36.53),
            s\<lparr>trace := trace s @ [Read (address s) 0x41, Read (address s) 0x42]\<rparr>)"
    using get_temp_ok [of b s h l] assms by (simp add: TEMP_OUTH_def)
  then show ?thesis by simp
qed

theorem get_temp_register_pair_and_formula_witness:
  "get_temp
     \<lparr>bus_read = (\<lambda>h a r. if r = 0x41 then Some 0x01 else if r = 0x42 then Some 0x54 else None),
      bus_write = (\<lambda>h a r v. True)\<rparr>
     \<lparr>address = 0x68, accel_range = Some ''4g'', gyro_range = Some ''500deg'', trace = []\<rparr>
   = (Inr 37.53,
      \<lparr>address = 0x68, accel_range = Some ''4g'', gyro_range = Some ''500deg'',
       trace = [Read 0x68 0x41, Read 0x68 0x42]\<rparr>)"
  using get_temp_register_pair_and_formula
    [of "\<lparr>bus_read = (\<lambda>h a r. if r = 0x41 then Some 0x01 else if r = 0x42 then Some 0x54 else None),
          bus_write = (\<lambda>h a r v. True)\<rparr>"
        "\<lparr>address = 0x68, accel_range = Some ''4g'', gyro_range = Some ''500deg'', trace = []\<rparr>"
        "0x01" "0x54"]
  by (simp add: combine_word_def)

text \<open>
  Claim C4 says that when the raw word read fails, \<^verbatim>\<open>get_temp\<close> reports that same
  failure. The code does otherwise: a failed raw read is reported by
  \<^verbatim>\<open>read_i2c_word\<close> as the value \<^verbatim>\<open>None\<close>, and \<^verbatim>\<open>get_temp\<close> then raises
  TypeError from \<^verbatim>\<open>None / 340.0\<close>, which the vector reads catch and \<^verbatim>\<open>get_temp\<close>
  does not.
\<close>

theorem get_temp_failed_read_raises_TypeError:
  assumes "fst (read_i2c_word b s TEMP_OUTH) = Inr None"
  shows "fst (get_temp b s) = Inl TypeError"
proof -
  obtain s1 where "read_i2c_word b s TEMP_OUTH = (Inr None, s1)"
    using assms by (cases "read_i2c_word b s TEMP_OUTH") simp
  then show ?thesis by (simp add: get_temp_None)
qed

theorem get_temp_failed_read_raises_TypeError_witness:
  "fst (read_i2c_word
         \<lparr>bus_read = (\<lambda>h a r. None), bus_write = (\<lambda>h a r v. True)\<rparr>
         \<lparr>address = 0x68, accel_range = Some ''4g'', gyro_range = Some ''500deg'', trace = []\<rparr>
         TEMP_OUTH) = Inr None \<and>
   fst (get_temp
         \<lparr>bus_read = (\<lambda>h a r. None), bus_write = (\<lambda>h a r v. True)\<rparr>
         \<lparr>address = 0x68, accel_range = Some ''4g'', gyro_range = Some ''500deg'', trace = []\<rparr>)
     = Inl TypeError"
proof -
  have h: "fst (read_i2c_word
         \<lparr>bus_read = (\<lambda>h a r. None), bus_write = (\<lambda>h a r v. True)\<rparr>
         \<lparr>address = 0x68, accel_range = Some ''4g'', gyro_range = Some ''500deg'', trace = []\<rparr>
         TEMP_OUTH) = Inr None"
    by (simp add: read_i2c_word_def read_byte_data_def)
  from h get_temp_failed_read_raises_TypeError [OF h] show ?thesis by (rule conjI)
qed

section \<open>Properties of the tilt angle\<close>

lemma angle_expr_None:
  "key_x xyz = None \<or> key_y xyz = None \<or> key_z xyz = None \<Longrightarrow> angle_expr xyz = Inl TypeError"
  by (cases "key_x xyz"; cases "key_y xyz"; cases "key_z xyz")
     (simp_all add: angle_expr_def py_pow2_def bind_err_def)

lemma ratio_in_domain:
  fixes a c d :: real
  shows "- 1 \<le> c / sqrt (a\<^sup>2 + c\<^sup>2 + d\<^sup>2) \<and> c / sqrt (a\<^sup>2 + c\<^sup>2 + d\<^sup>2) \<le> 1"
proof -
  define m where "m = sqrt (a\<^sup>2 + c\<^sup>2 + d\<^sup>2)"
  have "\<bar>c\<bar>\<^sup>2 \<le> a\<^sup>2 + c\<^sup>2 + d\<^sup>2" by simp
  then have le: "\<bar>c\<bar> \<le> m"
    unfolding m_def by (rule real_le_rsqrt)
  have "- 1 \<le> c / m \<and> c / m \<le> 1"
  proof (cases "m = 0")
    case True
    then show ?thesis by simp
  next
    case False
    with le have "0 < m" by linarith
    then show ?thesis
      using le by (simp add: pos_divide_le_eq pos_le_divide_eq) linarith
  qed
  then show ?thesis by (simp add: m_def)
qed

lemma angle_expr_Some:
  assumes "key_x xyz = Some a" "key_y xyz = Some c" "key_z xyz = Some d"
  shows "angle_expr xyz =
           (if a = 0 \<and> c = 0 \<and> d = 0 then Inl ZeroDivisionError
            else Inr (arccos (c / sqrt (a\<^sup>2 + c\<^sup>2 + d\<^sup>2)) * 180 / pi))"
proof -
  have nn: "\<not> a\<^sup>2 + c\<^sup>2 + d\<^sup>2 < 0"
    by (simp add: not_less)
  have z: "sqrt (a\<^sup>2 + c\<^sup>2 + d\<^sup>2) = 0 \<longleftrightarrow> a = 0 \<and> c = 0 \<and> d = 0"
    by (simp add: add_nonneg_eq_0_iff)
  have dom: "\<not> (c / sqrt (a\<^sup>2 + c\<^sup>2 + d\<^sup>2) < - 1 \<or> 1 < c / sqrt (a\<^sup>2 + c\<^sup>2 + d\<^sup>2))"
    using ratio_in_domain [of c a d] by linarith
  show ?thesis
    unfolding angle_expr_def py_pow2_def py_sqrt_def py_truediv_def py_acos_def bind_err_def
    using nn z dom assms by simp
qed

lemma calculate_angle_cases:
  "calculate_angle xyz =
     (case (key_x xyz, key_y xyz, key_z xyz) of
        (Some a, Some c, Some d) \<Rightarrow>
          if a = 0 \<and> c = 0 \<and> d = 0 then Inl ZeroDivisionError
          else Inr (Some (arccos (c / sqrt (a\<^sup>2 + c\<^sup>2 + d\<^sup>2)) * 180 / pi))
      | _ \<Rightarrow> Inr None)"
proof (cases "key_x xyz = None \<or> key_y xyz = None \<or> key_z xyz = None")
  case True
  then show ?thesis
    by (auto simp: calculate_angle_def angle_expr_None try_except_def bind_err_def
        split: option.splits)
next
  case False
  then obtain a c d where k: "key_x xyz = Some a" "key_y xyz = Some c" "key_z xyz = Some d"
    by auto
  show ?thesis
    by (simp add: calculate_angle_def angle_expr_Some [OF k] k try_except_def bind_err_def)
qed

text \<open>
  Claim C1 says that \<^verbatim>\<open>calculate_angle\<close> never raises and returns \<^verbatim>\<open>None\<close> for a
  vector of zero magnitude. The code does otherwise at that input: the handler lists
  ValueError and TypeError only, so the ZeroDivisionError of the division by
  \<^verbatim>\<open>sqrt(0)\<close> reaches the caller. The zero vector is what \<^verbatim>\<open>get_accel_data\<close>
  returns when every data register reads 0. (For the other inputs the code agrees with
  the claim, see \<open>calculate_angle_cases\<close>.)
\<close>

theorem calculate_angle_zero_vector_raises:
  "calculate_angle \<lparr>key_x = Some 0, key_y = Some 0, key_z = Some 0\<rparr> = Inl ZeroDivisionError \<and>
   fst (get_accel_data
         \<lparr>bus_read = (\<lambda>h a r. Some 0), bus_write = (\<lambda>h a r v. True)\<rparr>
         \<lparr>address = 0x68, accel_range = Some ''4g'', gyro_range = Some ''500deg'', trace = []\<rparr>)
     = Inr \<lparr>key_x = Some 0, key_y = Some 0, key_z = Some 0\<rparr>"
proof
  show "calculate_angle \<lparr>key_x = Some 0, key_y = Some 0, key_z = Some 0\<rparr> = Inl ZeroDivisionError"
    by (simp add: calculate_angle_cases)
  show "fst (get_accel_data
         \<lparr>bus_read = (\<lambda>h a r. Some 0), bus_write = (\<lambda>h a r v. True)\<rparr>
         \<lparr>address = 0x68, accel_range = Some ''4g'', gyro_range = Some ''500deg'', trace = []\<rparr>)
     = Inr \<lparr>key_x = Some 0, key_y = Some 0, key_z = Some 0\<rparr>"
    by (simp add: get_accel_data_def read_i2c_word_def read_byte_data_def combine_word_def
        convert_xyz_def accel_elem_def getattr_def py_truediv_def bind_err_def try_except_def
        ACCEL_SCALE_MAP_def xyz_dict_def)
qed

end
